theory Spec2Isabelle
  imports Main "HOL-Library.Word"
begin

section \<open>mu_log: the data model\<close>

text \<open>
  \<^verbatim>\<open>mu_log_level_t\<close> is a C enum with the six enumerators 0..5. The integer type behind
  an enum is the compiler's choice: a 32-bit object that is read unsigned (GCC, Clang: no
  enumerator is negative) or signed (compilers that always take \<^verbatim>\<open>int\<close>). A level is
  therefore a 32-bit word, and every function that reads it as a number takes the flag
  \<open>sg\<close>: \<open>True\<close> where the enum is signed. \<^verbatim>\<open>int\<close> is a 32-bit word read signed.
\<close>

type_synonym mu_log_level_t = "32 word"
type_synonym c_int = "32 word"
type_synonym size_t = "64 word"

definition MU_LOG_LEVEL_TRACE :: mu_log_level_t where "MU_LOG_LEVEL_TRACE = 0"
definition MU_LOG_LEVEL_DEBUG :: mu_log_level_t where "MU_LOG_LEVEL_DEBUG = 1"
definition MU_LOG_LEVEL_INFO :: mu_log_level_t where "MU_LOG_LEVEL_INFO = 2"
definition MU_LOG_LEVEL_WARN :: mu_log_level_t where "MU_LOG_LEVEL_WARN = 3"
definition MU_LOG_LEVEL_ERROR :: mu_log_level_t where "MU_LOG_LEVEL_ERROR = 4"
definition MU_LOG_LEVEL_FATAL :: mu_log_level_t where "MU_LOG_LEVEL_FATAL = 5"

definition MU_LOG_DEFAULT_LEVEL :: mu_log_level_t where
  "MU_LOG_DEFAULT_LEVEL = MU_LOG_LEVEL_INFO"

text \<open>The enumerators in the order of the \<^verbatim>\<open>MU_LOG_LEVELS\<close> list, least severe first.\<close>

definition defined_levels :: "mu_log_level_t list" where
  "defined_levels =
     [MU_LOG_LEVEL_TRACE, MU_LOG_LEVEL_DEBUG, MU_LOG_LEVEL_INFO,
      MU_LOG_LEVEL_WARN, MU_LOG_LEVEL_ERROR, MU_LOG_LEVEL_FATAL]"

text \<open>The value of an enum object as the C expression reads it.\<close>

definition enum_int :: "bool \<Rightarrow> mu_log_level_t \<Rightarrow> int" where
  "enum_int sg v = (if sg then sint v else uint v)"

text \<open>
  What can go wrong in C without a return value to say so: a call through a null
  function pointer, a read outside an array, a signed addition that overflows.
\<close>

datatype error = Null_function_call | Index_out_of_bounds | Signed_overflow

text \<open>
  \<^verbatim>\<open>mu_log_t\<close>. A function pointer is an identifier of type \<open>'f\<close>, resolved by the
  program's function table; \<open>None\<close> is \<^verbatim>\<open>NULL\<close>.
\<close>

record 'f mu_log_t =
  log_fn :: "'f option"
  threshold :: mu_log_level_t

text \<open>
  The calls into the C library that the default sink makes, each with its arguments:
  \<^verbatim>\<open>fputs(s, stdout)\<close>, \<^verbatim>\<open>printf(format, strings...)\<close> and \<^verbatim>\<open>vprintf(format, ap)\<close>,
  where \<open>'ap\<close> stands for a \<^verbatim>\<open>va_list\<close>.
\<close>

datatype 'ap stdio_call =
  Fputs string
| Printf string "string list"
| Vprintf string 'ap

text \<open>
  The process state: the static \<^verbatim>\<open>s_logger\<close>, the calls made to the standard output
  so far (oldest first, each with the value it returned), and the state \<open>app\<close> of the
  embedding program, which only sinks installed by that program touch.
\<close>

record ('f, 'ap, 'u) world =
  s_logger :: "'f mu_log_t"
  stdout_calls :: "('ap stdio_call \<times> c_int) list"
  app :: 'u

text \<open>
  The standard output decides what each call returns, from the calls made before and the
  call itself. It is a parameter \<open>io\<close> of the functions that write.
\<close>

type_synonym 'ap stdio = "('ap stdio_call \<times> c_int) list \<Rightarrow> 'ap stdio_call \<Rightarrow> c_int"

text \<open>
  A sink: \<^verbatim>\<open>mu_log_fn\<close>, over the message payload \<open>'m\<close> (the string in the simple build,
  the format and the \<^verbatim>\<open>va_list\<close> in the formatted build).
\<close>

type_synonym ('f, 'ap, 'u, 'm) sink =
  "mu_log_level_t \<Rightarrow> 'm \<Rightarrow> ('f, 'ap, 'u) world \<Rightarrow> error + (c_int \<times> ('f, 'ap, 'u) world)"

section \<open>Static storage\<close>

definition s_logger_init :: "'f mu_log_t" where
  "s_logger_init = \<lparr> log_fn = None, threshold = MU_LOG_DEFAULT_LEVEL \<rparr>"

definition initial_world :: "'u \<Rightarrow> ('f, 'ap, 'u) world" where
  "initial_world u = \<lparr> s_logger = s_logger_init, stdout_calls = [], app = u \<rparr>"

definition s_level_names :: "string list" where
  "s_level_names = [''TRACE'', ''DEBUG'', ''INFO'', ''WARN'', ''ERROR'', ''FATAL'']"

definition N_LOG_LEVELS :: size_t where
  "N_LOG_LEVELS = of_nat (length s_level_names)"

section \<open>Public code\<close>

definition mu_log_set_fn :: "'f option \<Rightarrow> ('f, 'ap, 'u) world \<Rightarrow> ('f, 'ap, 'u) world" where
  "mu_log_set_fn fn w = w\<lparr> s_logger := (s_logger w)\<lparr> log_fn := fn \<rparr> \<rparr>"

definition mu_log_get_fn :: "('f, 'ap, 'u) world \<Rightarrow> 'f option" where
  "mu_log_get_fn w = log_fn (s_logger w)"

definition mu_log_set_threshold ::
  "mu_log_level_t \<Rightarrow> ('f, 'ap, 'u) world \<Rightarrow> ('f, 'ap, 'u) world" where
  "mu_log_set_threshold t w = w\<lparr> s_logger := (s_logger w)\<lparr> threshold := t \<rparr> \<rparr>"

definition mu_log_get_threshold :: "('f, 'ap, 'u) world \<Rightarrow> mu_log_level_t" where
  "mu_log_get_threshold w = threshold (s_logger w)"

text \<open>
  \<^verbatim>\<open>mu_log\<close>, simple build: the call goes through \<^verbatim>\<open>s_logger.log_fn\<close> with no test of
  the pointer and no test of the level; what the sink returns is dropped. \<open>prog\<close> is the
  function table of the program.
\<close>

definition mu_log ::
  "('f \<Rightarrow> ('f, 'ap, 'u, string) sink) \<Rightarrow> mu_log_level_t \<Rightarrow> string \<Rightarrow>
   ('f, 'ap, 'u) world \<Rightarrow> error + ('f, 'ap, 'u) world" where
  "mu_log prog level message w =
     (case log_fn (s_logger w) of
        None \<Rightarrow> Inl Null_function_call
      | Some f \<Rightarrow>
          (case prog f level message w of
             Inl e \<Rightarrow> Inl e
           | Inr (n, w') \<Rightarrow> Inr w'))"

text \<open>
  \<^verbatim>\<open>mu_log\<close>, formatted build: \<^verbatim>\<open>va_start\<close> makes the \<^verbatim>\<open>va_list\<close> \<open>ap\<close> of the
  variable arguments, which goes to the sink with the format.
\<close>

definition mu_log_formatted ::
  "('f \<Rightarrow> ('f, 'ap, 'u, string \<times> 'ap) sink) \<Rightarrow> mu_log_level_t \<Rightarrow> string \<Rightarrow> 'ap \<Rightarrow>
   ('f, 'ap, 'u) world \<Rightarrow> error + ('f, 'ap, 'u) world" where
  "mu_log_formatted prog level format ap w =
     (case log_fn (s_logger w) of
        None \<Rightarrow> Inl Null_function_call
      | Some f \<Rightarrow>
          (case prog f level (format, ap) w of
             Inl e \<Rightarrow> Inl e
           | Inr (n, w') \<Rightarrow> Inr w'))"

text \<open>
  \<^verbatim>\<open>mu_log_will_log\<close>: both operands of \<^verbatim>\<open>>=\<close> have the enum's type, so the comparison
  is the one of their values.
\<close>

definition mu_log_will_log :: "bool \<Rightarrow> ('f, 'ap, 'u) world \<Rightarrow> mu_log_level_t \<Rightarrow> bool" where
  "mu_log_will_log sg w level \<longleftrightarrow>
     log_fn (s_logger w) \<noteq> None \<and> enum_int sg (threshold (s_logger w)) \<le> enum_int sg level"

text \<open>Reading \<^verbatim>\<open>a[i]\<close>: outside the array the behaviour is undefined.\<close>

definition array_read :: "'a list \<Rightarrow> int \<Rightarrow> error + 'a" where
  "array_read a i =
     (if 0 \<le> i \<and> i < int (length a) then Inr (a ! nat i) else Inl Index_out_of_bounds)"

text \<open>
  \<^verbatim>\<open>mu_log_level_name\<close>: in \<^verbatim>\<open>level < N_LOG_LEVELS\<close> the right operand is a
  \<^verbatim>\<open>size_t\<close>, so the level is converted to \<^verbatim>\<open>size_t\<close> (its value modulo \<open>2 ^ 64\<close>) and
  the comparison is unsigned.
\<close>

definition mu_log_level_name :: "bool \<Rightarrow> mu_log_level_t \<Rightarrow> error + string" where
  "mu_log_level_name sg level =
     (if (word_of_int (enum_int sg level) :: size_t) < N_LOG_LEVELS
      then array_read s_level_names (enum_int sg level)
      else Inr ''UNKNOWN'')"

text \<open>
  A call into the C library: the standard output answers, and the call and its answer
  are appended to the calls made.
\<close>

definition call_stdio ::
  "'ap stdio \<Rightarrow> 'ap stdio_call \<Rightarrow> ('f, 'ap, 'u) world \<Rightarrow> c_int \<times> ('f, 'ap, 'u) world" where
  "call_stdio io c w =
     (let n = io (stdout_calls w) c
      in (n, w\<lparr> stdout_calls := stdout_calls w @ [(c, n)] \<rparr>))"

definition fputs ::
  "'ap stdio \<Rightarrow> string \<Rightarrow> ('f, 'ap, 'u) world \<Rightarrow> c_int \<times> ('f, 'ap, 'u) world" where
  "fputs io s w = call_stdio io (Fputs s) w"

definition printf ::
  "'ap stdio \<Rightarrow> string \<Rightarrow> string list \<Rightarrow> ('f, 'ap, 'u) world \<Rightarrow>
   c_int \<times> ('f, 'ap, 'u) world" where
  "printf io format args w = call_stdio io (Printf format args) w"

definition vprintf ::
  "'ap stdio \<Rightarrow> string \<Rightarrow> 'ap \<Rightarrow> ('f, 'ap, 'u) world \<Rightarrow> c_int \<times> ('f, 'ap, 'u) world" where
  "vprintf io format ap w = call_stdio io (Vprintf format ap) w"

definition INT_MAX :: int where
  "INT_MAX = 2147483647"

text \<open>
  \<^verbatim>\<open>mu_log_stdout_fn\<close>, formatted build. The three counts are not negative where they
  are added, so the sum leaves \<^verbatim>\<open>int\<close> only above \<^verbatim>\<open>INT_MAX\<close>.
\<close>

definition mu_log_stdout_fn_formatted ::
  "bool \<Rightarrow> 'ap stdio \<Rightarrow> mu_log_level_t \<Rightarrow> string \<Rightarrow> 'ap \<Rightarrow> ('f, 'ap, 'u) world \<Rightarrow>
   error + (c_int \<times> ('f, 'ap, 'u) world)" where
  "mu_log_stdout_fn_formatted sg io level format ap w =
     (if \<not> mu_log_will_log sg w level then Inr (0, w)
      else
        case mu_log_level_name sg level of
          Inl e \<Rightarrow> Inl e
        | Inr name \<Rightarrow>
           (case printf io ''%5s: '' [name] w of (n1, w1) \<Rightarrow>
            if n1 <s 0 then Inr (n1, w1)
            else
              case vprintf io format ap w1 of (n2, w2) \<Rightarrow>
              if n2 <s 0 then Inr (n2, w2)
              else
                case printf io [CHR 0x0A] [] w2 of (n3, w3) \<Rightarrow>
                if n3 <s 0 then Inr (n3, w3)
                else if INT_MAX < sint n1 + sint n2 + sint n3 then Inl Signed_overflow
                else Inr (n1 + n2 + n3, w3)))"

text \<open>
  \<^verbatim>\<open>mu_log_stdout_fn\<close>, simple build: one variable \<^verbatim>\<open>n\<close>, assigned by each
  \<^verbatim>\<open>fputs\<close> and returned at the end.
\<close>

definition mu_log_stdout_fn ::
  "bool \<Rightarrow> 'ap stdio \<Rightarrow> mu_log_level_t \<Rightarrow> string \<Rightarrow> ('f, 'ap, 'u) world \<Rightarrow>
   error + (c_int \<times> ('f, 'ap, 'u) world)" where
  "mu_log_stdout_fn sg io level message w =
     (if \<not> mu_log_will_log sg w level then Inr (0, w)
      else
        case mu_log_level_name sg level of
          Inl e \<Rightarrow> Inl e
        | Inr name \<Rightarrow>
           (case fputs io name w of (n, w1) \<Rightarrow>
            if n <s 0 then Inr (n, w1)
            else
              case fputs io '': '' w1 of (n, w2) \<Rightarrow>
              if n <s 0 then Inr (n, w2)
              else
                case fputs io message w2 of (n, w3) \<Rightarrow>
                if n <s 0 then Inr (n, w3)
                else
                  case fputs io [CHR 0x0A] w3 of (n, w4) \<Rightarrow>
                  if n <s 0 then Inr (n, w4)
                  else Inr (n, w4)))"

section \<open>The test doubles of test_mu_log.c\<close>

text \<open>
  \<^verbatim>\<open>mock_print_fn\<close> is a fake that records its argument and returns 0; the program
  state \<open>app\<close> is its argument history. \<^verbatim>\<open>test_log_fn\<close> is the sink the tests install.
\<close>

definition mock_print_fn ::
  "string \<Rightarrow> ('f, 'ap, string list) world \<Rightarrow> c_int \<times> ('f, 'ap, string list) world" where
  "mock_print_fn message w = (0, w\<lparr> app := app w @ [message] \<rparr>)"

definition test_log_fn :: "bool \<Rightarrow> ('f, 'ap, string list, string) sink" where
  "test_log_fn sg level message w =
     (if mu_log_will_log sg w level then Inr (mock_print_fn message w) else Inr (0, w))"

section \<open>Sequences of calls of the public operations\<close>












section \<open>The writes of the default sink, as the specification words them\<close>

text \<open>
  Not code of mu_log.c: the specification's "the first negative value encountered if any
  underlying write operation fails (short-circuits remaining writes)", to compare
  \<^verbatim>\<open>mu_log_stdout_fn\<close> with. The calls \<open>cs\<close> are made in order; the first one that
  returns a negative value ends the writing, and that value is the result \<open>Some n\<close>;
  \<open>None\<close> when every call succeeded.
\<close>

fun write_until_failure ::
  "'ap stdio \<Rightarrow> 'ap stdio_call list \<Rightarrow> ('f, 'ap, 'u) world \<Rightarrow>
   c_int option \<times> ('f, 'ap, 'u) world" where
  "write_until_failure io [] w = (None, w)"
| "write_until_failure io (c # cs) w =
     (case call_stdio io c w of (n, w') \<Rightarrow>
        if n <s 0 then (Some n, w') else write_until_failure io cs w')"

text \<open>
  A standard output that accepts every call, where \<^verbatim>\<open>fputs\<close> returns the number of
  characters of its string (the C standard asks for a value that is not negative) and
  the other calls return 0, as the fakes of test_mu_log.c do.
\<close>

definition stdio_counting :: "'ap stdio" where
  "stdio_counting calls c = (case c of Fputs s \<Rightarrow> of_nat (length s) | _ \<Rightarrow> 0)"

section \<open>Facts about the levels\<close>

lemmas level_defs =
  MU_LOG_LEVEL_TRACE_def MU_LOG_LEVEL_DEBUG_def MU_LOG_LEVEL_INFO_def
  MU_LOG_LEVEL_WARN_def MU_LOG_LEVEL_ERROR_def MU_LOG_LEVEL_FATAL_def
  MU_LOG_DEFAULT_LEVEL_def

lemma uint_woi64: "uint (word_of_int k :: 64 word) = k mod 2 ^ 64"
  by (simp add: uint_word_of_int take_bit_eq_mod)

lemma sint_cases32:
  fixes v :: "32 word"
  shows "(0 \<le> sint v \<and> uint v = sint v) \<or> (sint v < 0 \<and> uint v = sint v + 2 ^ 32)"
proof -
  have r: "- (2 ^ 31) \<le> sint v" "sint v < 2 ^ 31"
    using sint_ge [of v] sint_lt [of v] by simp_all
  have u: "uint v = sint v mod 2 ^ 32"
    by (simp add: uint_sint take_bit_eq_mod)
  show ?thesis
  proof (cases "0 \<le> sint v")
    case True
    with r u show ?thesis by simp
  next
    case False
    have "(sint v + 2 ^ 32) mod 2 ^ 32 = sint v + 2 ^ 32"
      using r False by (intro mod_pos_pos_trivial) simp_all
    then have "sint v mod 2 ^ 32 = sint v + 2 ^ 32"
      by simp
    with u False show ?thesis by simp
  qed
qed

lemma size_t_less_6:
  "(word_of_int (enum_int sg v) :: size_t) < 6 \<longleftrightarrow> uint v < 6"
proof (cases sg)
  case False
  have "uint v mod 2 ^ 64 = uint v"
    using uint_bounded [of v] by (intro mod_pos_pos_trivial) simp_all
  then have "uint (word_of_int (uint v) :: size_t) = uint v"
    using uint_woi64 [of "uint v"] by simp
  with False show ?thesis
    by (simp only: enum_int_def word_less_def if_False) simp
next
  case True
  have r: "- (2 ^ 31) \<le> sint v" "sint v < 2 ^ 31"
    using sint_ge [of v] sint_lt [of v] by simp_all
  consider (pos) "0 \<le> sint v" "uint v = sint v" | (neg) "sint v < 0" "uint v = sint v + 2 ^ 32"
    using sint_cases32 [of v] by blast
  then have "uint (word_of_int (sint v) :: size_t) < 6 \<longleftrightarrow> uint v < 6"
  proof cases
    case pos
    have "sint v mod 2 ^ 64 = sint v"
      using pos r by (intro mod_pos_pos_trivial) simp_all
    with pos show ?thesis
      using uint_woi64 [of "sint v"] by (simp del: of_int_sint)
  next
    case neg
    have "(sint v + 2 ^ 64) mod 2 ^ 64 = sint v + 2 ^ 64"
      using r neg by (intro mod_pos_pos_trivial) simp_all
    then have "sint v mod 2 ^ 64 = sint v + 2 ^ 64"
      by simp
    with neg r show ?thesis
      using uint_woi64 [of "sint v"] by (simp del: of_int_sint)
  qed
  with True show ?thesis
    by (simp only: enum_int_def word_less_def if_True) simp
qed

lemma N_LOG_LEVELS_6: "N_LOG_LEVELS = 6"
  by (simp add: N_LOG_LEVELS_def s_level_names_def)

lemma enum_int_small: "uint v < 6 \<Longrightarrow> enum_int sg v = uint v"
  using sint_cases32 [of v] sint_ge [of v] by (auto simp: enum_int_def)

lemma uint_less_6_cases:
  fixes v :: "32 word"
  assumes "uint v < 6"
  shows "v = 0 \<or> v = 1 \<or> v = 2 \<or> v = 3 \<or> v = 4 \<or> v = 5"
proof -
  have "0 \<le> uint v" by simp
  with assms have "uint v = 0 \<or> uint v = 1 \<or> uint v = 2 \<or> uint v = 3 \<or> uint v = 4 \<or> uint v = 5"
    by arith
  then show ?thesis
    by (metis word_of_int_uint word_of_int_0 word_of_int_1 word_of_int_numeral)
qed

lemma level_name_eq:
  "mu_log_level_name sg v =
     Inr (if v = MU_LOG_LEVEL_TRACE then ''TRACE''
          else if v = MU_LOG_LEVEL_DEBUG then ''DEBUG''
          else if v = MU_LOG_LEVEL_INFO then ''INFO''
          else if v = MU_LOG_LEVEL_WARN then ''WARN''
          else if v = MU_LOG_LEVEL_ERROR then ''ERROR''
          else if v = MU_LOG_LEVEL_FATAL then ''FATAL''
          else ''UNKNOWN'')"
proof (cases "uint v < 6")
  case True
  then have e: "enum_int sg v = uint v"
    by (rule enum_int_small)
  from True have c: "(word_of_int (enum_int sg v) :: size_t) < N_LOG_LEVELS"
    by (simp only: size_t_less_6 N_LOG_LEVELS_6)
  have "mu_log_level_name sg v = array_read s_level_names (enum_int sg v)"
    unfolding mu_log_level_name_def using c by (rule if_P)
  then have n: "mu_log_level_name sg v = array_read s_level_names (uint v)"
    by (simp only: e)
  from True have "v = 0 \<or> v = 1 \<or> v = 2 \<or> v = 3 \<or> v = 4 \<or> v = 5"
    by (rule uint_less_6_cases)
  then show ?thesis
    unfolding n
    by (elim disjE) (simp_all add: array_read_def s_level_names_def level_defs)
next
  case False
  then have c: "\<not> (word_of_int (enum_int sg v) :: size_t) < N_LOG_LEVELS"
    by (simp only: size_t_less_6 N_LOG_LEVELS_6 not_False_eq_True)
  from False have "v \<noteq> 0" "v \<noteq> 1" "v \<noteq> 2" "v \<noteq> 3" "v \<noteq> 4" "v \<noteq> 5"
    by auto
  moreover have "mu_log_level_name sg v = Inr ''UNKNOWN''"
    unfolding mu_log_level_name_def using c by (rule if_not_P)
  ultimately show ?thesis
    by (simp add: level_defs)
qed

lemma enum_int_defined:
  "i < length defined_levels \<Longrightarrow> enum_int sg (defined_levels ! i) = int i"
proof -
  assume "i < length defined_levels"
  then have "i < 6"
    by (simp add: defined_levels_def)
  then have "i = 0 \<or> i = 1 \<or> i = 2 \<or> i = 3 \<or> i = 4 \<or> i = 5"
    by arith
  then show ?thesis
    by (elim disjE) (simp_all add: defined_levels_def level_defs enum_int_def)
qed

section \<open>Facts about the default sink\<close>

lemma level_name_Inr: "\<exists>name. mu_log_level_name sg level = Inr name"
  by (simp add: level_name_eq)

lemma simple_sink_gated:
  "\<not> mu_log_will_log sg w level \<Longrightarrow> mu_log_stdout_fn sg io level message w = Inr (0, w)"
  by (simp add: mu_log_stdout_fn_def)

lemma formatted_sink_gated:
  "\<not> mu_log_will_log sg w level \<Longrightarrow>
   mu_log_stdout_fn_formatted sg io level format ap w = Inr (0, w)"
  by (simp add: mu_log_stdout_fn_formatted_def)

lemma stdout_fn_failure:
  assumes "mu_log_will_log sg w level" and "mu_log_level_name sg level = Inr name"
    and "write_until_failure io [Fputs name, Fputs '': '', Fputs message, Fputs [CHR 0x0A]] w
         = (Some n, w')"
  shows "mu_log_stdout_fn sg io level message w = Inr (n, w')"
  using assms
  by (auto simp: mu_log_stdout_fn_def fputs_def split: prod.splits if_splits)

lemma stdout_fn_formatted_failure:
  assumes "mu_log_will_log sg w level" and "mu_log_level_name sg level = Inr name"
    and "write_until_failure io [Printf ''%5s: '' [name], Vprintf format ap, Printf [CHR 0x0A] []] w
         = (Some n, w')"
  shows "mu_log_stdout_fn_formatted sg io level format ap w = Inr (n, w')"
  using assms
  by (auto simp: mu_log_stdout_fn_formatted_def printf_def vprintf_def split: prod.splits if_splits)

lemma stdout_fn_success:
  assumes "mu_log_will_log sg w level" and "mu_log_level_name sg level = Inr name"
    and "write_until_failure io [Fputs name, Fputs '': '', Fputs message, Fputs [CHR 0x0A]] w
         = (None, w')"
  shows "mu_log_stdout_fn sg io level message w = Inr (snd (last (stdout_calls w')), w')"
  using assms
  by (auto simp: mu_log_stdout_fn_def fputs_def call_stdio_def Let_def split: prod.splits if_splits)

lemma call_stdio_logger: "call_stdio io c w = (n, w') \<Longrightarrow> s_logger w' = s_logger w"
  by (auto simp: call_stdio_def Let_def)



lemma write_until_failure_Some:
  "write_until_failure io cs w = (Some n, w') \<Longrightarrow>
   n <s 0 \<and>
   (\<exists>k rs. k < length cs \<and> length rs = k \<and> list_all (\<lambda>r. \<not> r <s 0) rs \<and>
      w' = w\<lparr> stdout_calls := stdout_calls w @ zip (take (Suc k) cs) (rs @ [n]) \<rparr>)"
proof (induction cs arbitrary: w)
  case Nil
  then show ?case by simp
next
  case (Cons c cs)
  obtain m w1 where c1: "call_stdio io c w = (m, w1)"
    by (cases "call_stdio io c w")
  then have w1: "w1 = w\<lparr> stdout_calls := stdout_calls w @ [(c, m)] \<rparr>"
    by (auto simp: call_stdio_def Let_def)
  show ?case
  proof (cases "m <s 0")
    case True
    with Cons.prems c1 have "n = m" "w' = w1"
      by simp_all
    with True w1 have "n <s 0 \<and> 0 < length (c # cs) \<and> length ([] :: c_int list) = 0 \<and>
        list_all (\<lambda>r. \<not> r <s 0) [] \<and>
        w' = w\<lparr> stdout_calls := stdout_calls w @ zip (take (Suc 0) (c # cs)) ([] @ [n]) \<rparr>"
      by simp
    then show ?thesis by blast
  next
    case False
    with Cons.prems c1 have "write_until_failure io cs w1 = (Some n, w')"
      by simp
    from Cons.IH [OF this] obtain k rs where n: "n <s 0"
      and k: "k < length cs" "length rs = k" "list_all (\<lambda>r. \<not> r <s 0) rs"
      and w': "w' = w1\<lparr> stdout_calls := stdout_calls w1 @ zip (take (Suc k) cs) (rs @ [n]) \<rparr>"
      by blast
    from k False w' w1 have "Suc k < length (c # cs) \<and> length (m # rs) = Suc k \<and>
        list_all (\<lambda>r. \<not> r <s 0) (m # rs) \<and>
        w' = w\<lparr> stdout_calls := stdout_calls w @ zip (take (Suc (Suc k)) (c # cs)) ((m # rs) @ [n]) \<rparr>"
      by simp
    with n show ?thesis by blast
  qed
qed

section \<open>Facts about sequences of calls\<close>















section \<open>The claims\<close>

text \<open>
  C5: for every 32-bit value \<open>v\<close>, read signed or unsigned, \<^verbatim>\<open>mu_log_level_name\<close> returns
  (it never reads outside the table of names): the fixed name of the level when \<open>v\<close> is
  one of the six enumerators, and \<^verbatim>\<open>"UNKNOWN"\<close> for every other value, the negative ones
  included.
\<close>

theorem level_name_total:
  "mu_log_level_name sg v =
     Inr (if v = MU_LOG_LEVEL_TRACE then ''TRACE''
          else if v = MU_LOG_LEVEL_DEBUG then ''DEBUG''
          else if v = MU_LOG_LEVEL_INFO then ''INFO''
          else if v = MU_LOG_LEVEL_WARN then ''WARN''
          else if v = MU_LOG_LEVEL_ERROR then ''ERROR''
          else if v = MU_LOG_LEVEL_FATAL then ''FATAL''
          else ''UNKNOWN'')"
  by (rule level_name_eq)

theorem level_name_total_witness:
  "mu_log_level_name True (- 1) = Inr ''UNKNOWN'' \<and>
   mu_log_level_name False (- 1) = Inr ''UNKNOWN'' \<and>
   mu_log_level_name False 6 = Inr ''UNKNOWN'' \<and>
   mu_log_level_name True MU_LOG_LEVEL_WARN = Inr ''WARN''"
  using level_name_total [of True "- 1"] level_name_total [of False "- 1"]
    level_name_total [of False 6] level_name_total [of True MU_LOG_LEVEL_WARN]
  by (simp add: level_defs)

text \<open>
  C4: with the threshold at the \<open>j\<close>-th and the level at the \<open>i\<close>-th of the six levels
  in the order TRACE, DEBUG, INFO, WARN, ERROR, FATAL, \<^verbatim>\<open>mu_log_will_log\<close> is true exactly
  when a sink is installed and \<open>j \<le> i\<close>; and with no sink installed it is false for
  every value of the level and of the threshold.
\<close>

theorem will_log_iff:
  fixes w :: "('f, 'ap, 'u) world"
  assumes "i < length defined_levels" and "j < length defined_levels"
    and "mu_log_get_threshold w = defined_levels ! j"
  shows "(mu_log_will_log sg w (defined_levels ! i) \<longleftrightarrow> mu_log_get_fn w \<noteq> None \<and> j \<le> i) \<and>
         (\<forall>(w' :: ('f, 'ap, 'u) world) v.
            mu_log_get_fn w' = None \<longrightarrow> \<not> mu_log_will_log sg w' v)"
  using assms
  by (simp add: mu_log_will_log_def mu_log_get_fn_def mu_log_get_threshold_def enum_int_defined)

theorem will_log_iff_witness:
  "mu_log_will_log True
     (mu_log_set_fn (Some ()) (mu_log_set_threshold MU_LOG_LEVEL_WARN
        (initial_world () :: (unit, unit, unit) world)))
     MU_LOG_LEVEL_ERROR \<and>
   \<not> mu_log_will_log True
     (mu_log_set_fn (Some ()) (mu_log_set_threshold MU_LOG_LEVEL_WARN
        (initial_world () :: (unit, unit, unit) world)))
     MU_LOG_LEVEL_INFO \<and>
   \<not> mu_log_will_log True
     (mu_log_set_threshold MU_LOG_LEVEL_TRACE (initial_world () :: (unit, unit, unit) world))
     MU_LOG_LEVEL_FATAL"
proof -
  let ?w = "mu_log_set_fn (Some ()) (mu_log_set_threshold MU_LOG_LEVEL_WARN
        (initial_world () :: (unit, unit, unit) world))"
  let ?v = "mu_log_set_threshold MU_LOG_LEVEL_TRACE (initial_world () :: (unit, unit, unit) world)"
  have t: "mu_log_get_threshold ?w = defined_levels ! 3"
    by (simp add: defined_levels_def mu_log_get_threshold_def mu_log_set_threshold_def
        mu_log_set_fn_def initial_world_def)
  have f: "mu_log_get_fn ?w = Some ()"
    by (simp add: mu_log_get_fn_def mu_log_set_fn_def)
  have n: "mu_log_get_fn ?v = None"
    by (simp add: mu_log_get_fn_def mu_log_set_threshold_def initial_world_def s_logger_init_def)
  have l: "(4::nat) < length defined_levels" "(3::nat) < length defined_levels"
    "(2::nat) < length defined_levels"
    by (simp_all add: defined_levels_def)
  have "mu_log_will_log True ?w (defined_levels ! 4)"
    using will_log_iff [OF l(1) l(2) t, of True] f by simp
  moreover have "\<not> mu_log_will_log True ?w (defined_levels ! 2)"
    using will_log_iff [OF l(3) l(2) t, of True] by simp
  moreover have "\<not> mu_log_will_log True ?v MU_LOG_LEVEL_FATAL"
    using will_log_iff [OF l(1) l(2) t, of True] n by blast
  ultimately show ?thesis
    by (simp add: defined_levels_def)
qed

text \<open>
  C9: from every state and for every value \<open>t\<close>, \<^verbatim>\<open>mu_log_get_threshold\<close> after
  \<^verbatim>\<open>mu_log_set_threshold(t)\<close> returns \<open>t\<close>.
\<close>

theorem get_threshold_set_threshold:
  "mu_log_get_threshold (mu_log_set_threshold t w) = t"
  by (simp add: mu_log_get_threshold_def mu_log_set_threshold_def)

text \<open>
  C10: \<^verbatim>\<open>mu_log_set_fn\<close> changes the sink and nothing else (the threshold stays, also when
  \<^verbatim>\<open>NULL\<close> is installed), and \<^verbatim>\<open>mu_log_set_threshold\<close> changes the threshold and nothing
  else (the sink stays), from every state.
\<close>

theorem setters_frame:
  "mu_log_get_threshold (mu_log_set_fn fn w) = mu_log_get_threshold w \<and>
   mu_log_get_threshold (mu_log_set_fn None w) = mu_log_get_threshold w \<and>
   mu_log_set_fn fn w = w\<lparr> s_logger := (s_logger w)\<lparr> log_fn := fn \<rparr> \<rparr> \<and>
   mu_log_get_fn (mu_log_set_threshold t w) = mu_log_get_fn w \<and>
   mu_log_set_threshold t w = w\<lparr> s_logger := (s_logger w)\<lparr> threshold := t \<rparr> \<rparr>"
  by (simp add: mu_log_get_threshold_def mu_log_set_threshold_def mu_log_get_fn_def
      mu_log_set_fn_def)

text \<open>
  C1: the claim says that \<^verbatim>\<open>mu_log\<close> with no sink installed returns as a silent no-op.
  The code calls through \<^verbatim>\<open>s_logger.log_fn\<close> without testing it: in the state the
  process starts with, \<^verbatim>\<open>mu_log(MU_LOG_LEVEL_FATAL, "x")\<close> is a call through a null
  function pointer, in both builds.
\<close>

theorem log_without_sink:
  "mu_log prog MU_LOG_LEVEL_FATAL ''x'' (initial_world u) = Inl Null_function_call \<and>
   mu_log_formatted prog' MU_LOG_LEVEL_FATAL ''x'' ap (initial_world u) = Inl Null_function_call"
  by (simp add: mu_log_def mu_log_formatted_def initial_world_def s_logger_init_def)

text \<open>
  C2: with a sink \<open>f\<close> installed, whatever the threshold \<open>t\<close> and the level, \<^verbatim>\<open>mu_log\<close>
  is one call of \<open>f\<close> on the level and the message, in the state \<^verbatim>\<open>mu_log\<close> was called
  in: it ends in the state that call ends in, and fails only where that call fails. The
  threshold is not compared with the level. Both builds.
\<close>

theorem log_forwards_once:
  assumes "mu_log_get_fn w = Some f"
  shows "mu_log prog level message (mu_log_set_threshold t w) =
           (case prog f level message (mu_log_set_threshold t w) of
              Inl e \<Rightarrow> Inl e
            | Inr (n, w') \<Rightarrow> Inr w') \<and>
         mu_log_formatted prog' level format ap (mu_log_set_threshold t w) =
           (case prog' f level (format, ap) (mu_log_set_threshold t w) of
              Inl e \<Rightarrow> Inl e
            | Inr (n, w') \<Rightarrow> Inr w')"
  using assms
  by (simp add: mu_log_def mu_log_formatted_def mu_log_get_fn_def mu_log_set_threshold_def)

theorem log_forwards_once_witness:
  "mu_log (\<lambda>f level message w. Inr (0, w\<lparr> app := app w @ [(level, message)] \<rparr>))
     MU_LOG_LEVEL_TRACE ''x''
     (mu_log_set_threshold MU_LOG_LEVEL_FATAL
        (mu_log_set_fn (Some ()) (initial_world [] :: (unit, unit, _) world))) =
   Inr \<lparr> s_logger = \<lparr> log_fn = Some (), threshold = MU_LOG_LEVEL_FATAL \<rparr>,
         stdout_calls = [], app = [(MU_LOG_LEVEL_TRACE, ''x'')] \<rparr>"
proof -
  let ?w = "mu_log_set_fn (Some ()) (initial_world [] :: (unit, unit, (mu_log_level_t \<times> string) list) world)"
  have "mu_log_get_fn ?w = Some ()"
    by (simp add: mu_log_get_fn_def mu_log_set_fn_def)
  from log_forwards_once [OF this,
      of "\<lambda>f level message w. Inr (0, w\<lparr> app := app w @ [(level, message)] \<rparr>)"
        MU_LOG_LEVEL_TRACE "''x''" MU_LOG_LEVEL_FATAL]
  show ?thesis
    by (simp add: mu_log_set_threshold_def mu_log_set_fn_def initial_world_def s_logger_init_def)
qed

text \<open>
  The scenario of \<^verbatim>\<open>test_mu_log_filters_by_level\<close>: the sink of the tests installed,
  threshold WARN, one message at INFO and one at ERROR: the fake is called once, by the
  second message.
\<close>

lemma test_mu_log_filters_by_level:
  "(case mu_log (\<lambda>f. test_log_fn sg) MU_LOG_LEVEL_INFO ''This should not be logged.''
           (mu_log_set_threshold MU_LOG_LEVEL_WARN
              (mu_log_set_fn (Some ()) (initial_world []))) of
      Inl e \<Rightarrow> Inl e
    | Inr w \<Rightarrow> mu_log (\<lambda>f. test_log_fn sg) MU_LOG_LEVEL_ERROR ''This should be logged.'' w) =
   Inr \<lparr> s_logger = \<lparr> log_fn = Some (), threshold = MU_LOG_LEVEL_WARN \<rparr>,
         stdout_calls = [], app = [''This should be logged.''] \<rparr>"
  by (simp add: mu_log_def test_log_fn_def mock_print_fn_def mu_log_will_log_def
      mu_log_set_threshold_def mu_log_set_fn_def initial_world_def s_logger_init_def
      enum_int_def level_defs)

text \<open>
  C3: the claim says that the simple \<^verbatim>\<open>mu_log_stdout_fn\<close> returns the sum of the
  characters written by its four writes. The code keeps one \<^verbatim>\<open>n\<close>, overwritten by each
  \<^verbatim>\<open>fputs\<close>, and returns the value of the last one: with every \<^verbatim>\<open>fputs\<close> returning
  the length of its string, \<^verbatim>\<open>mu_log_stdout_fn(MU_LOG_LEVEL_INFO, "Hello, world!")\<close>
  makes the four writes of 4, 2, 13 and 1 characters in order and returns 1, not 20.
\<close>

theorem stdout_fn_returns_last:
  "mu_log_stdout_fn sg stdio_counting MU_LOG_LEVEL_INFO ''Hello, world!''
     (mu_log_set_fn (Some f) (initial_world u)) =
   Inr (1, \<lparr> s_logger = \<lparr> log_fn = Some f, threshold = MU_LOG_LEVEL_INFO \<rparr>,
             stdout_calls =
               [(Fputs ''INFO'', 4), (Fputs '': '', 2), (Fputs ''Hello, world!'', 13),
                (Fputs [CHR 0x0A], 1)],
             app = u \<rparr>)"
  by (simp add: mu_log_stdout_fn_def level_name_eq mu_log_will_log_def fputs_def
      call_stdio_def stdio_counting_def mu_log_set_fn_def initial_world_def s_logger_init_def
      level_defs word_sless_alt)

text \<open>
  C6: where the level passes \<^verbatim>\<open>mu_log_will_log\<close> and a write of the default sink fails,
  the sink returns the negative value of the first write that failed and makes no write
  after it: it ends as the writes of the sink, made in order up to the first failure, end.
  The simple build writes the name, \<^verbatim>\<open>": "\<close>, the message and the newline with
  \<^verbatim>\<open>fputs\<close>; the formatted build makes the three calls \<^verbatim>\<open>printf("%5s: ", name)\<close>,
  \<^verbatim>\<open>vprintf(format, ap)\<close> and \<^verbatim>\<open>printf("\n")\<close>.
\<close>

theorem stdout_fn_short_circuit:
  assumes "mu_log_will_log sg w level" and "mu_log_level_name sg level = Inr name"
  shows "(\<forall>n w'. write_until_failure io
                    [Fputs name, Fputs '': '', Fputs message, Fputs [CHR 0x0A]] w = (Some n, w')
            \<longrightarrow> n <s 0 \<and> mu_log_stdout_fn sg io level message w = Inr (n, w')) \<and>
         (\<forall>n w'. write_until_failure io
                    [Printf ''%5s: '' [name], Vprintf format ap, Printf [CHR 0x0A] []] w
                  = (Some n, w')
            \<longrightarrow> n <s 0 \<and> mu_log_stdout_fn_formatted sg io level format ap w = Inr (n, w'))"
proof (intro conjI allI impI)
  fix n w'
  assume a: "write_until_failure io
            [Fputs name, Fputs '': '', Fputs message, Fputs [CHR 0x0A]] w = (Some n, w')"
  from write_until_failure_Some [OF a] show "n <s 0"
    by (rule conjunct1)
  from assms a show "mu_log_stdout_fn sg io level message w = Inr (n, w')"
    by (rule stdout_fn_failure)
next
  fix n w'
  assume a: "write_until_failure io
            [Printf ''%5s: '' [name], Vprintf format ap, Printf [CHR 0x0A] []] w = (Some n, w')"
  from write_until_failure_Some [OF a] show "n <s 0"
    by (rule conjunct1)
  from assms a show "mu_log_stdout_fn_formatted sg io level format ap w = Inr (n, w')"
    by (rule stdout_fn_formatted_failure)
qed

theorem stdout_fn_short_circuit_witness:
  "mu_log_stdout_fn True (\<lambda>calls c. if length calls = 1 then - 1 else 0)
     MU_LOG_LEVEL_INFO ''Hello''
     (mu_log_set_fn (Some ()) (initial_world ()) :: (unit, string list, unit) world) =
   Inr (- 1, \<lparr> s_logger = \<lparr> log_fn = Some (), threshold = MU_LOG_LEVEL_INFO \<rparr>,
               stdout_calls = [(Fputs ''INFO'', 0), (Fputs '': '', - 1)], app = () \<rparr>) \<and>
   mu_log_stdout_fn_formatted True (\<lambda>calls c. if length calls = 1 then - 1 else 0)
     MU_LOG_LEVEL_INFO ''Hello, %s!'' [''world'']
     (mu_log_set_fn (Some ()) (initial_world ())) =
   Inr (- 1, \<lparr> s_logger = \<lparr> log_fn = Some (), threshold = MU_LOG_LEVEL_INFO \<rparr>,
               stdout_calls = [(Printf ''%5s: '' [''INFO''], 0),
                               (Vprintf ''Hello, %s!'' [''world''], - 1)], app = () \<rparr>)"
proof -
  let ?io = "(\<lambda>calls c. if length calls = 1 then - 1 else 0) :: string list stdio"
  let ?w = "mu_log_set_fn (Some ()) (initial_world ()) :: (unit, string list, unit) world"
  have 1: "mu_log_will_log True ?w MU_LOG_LEVEL_INFO"
    by (simp add: mu_log_will_log_def mu_log_set_fn_def initial_world_def s_logger_init_def
        level_defs)
  have 2: "mu_log_level_name True MU_LOG_LEVEL_INFO = Inr ''INFO''"
    by (simp add: level_name_eq level_defs)
  have 3: "write_until_failure ?io
             [Fputs ''INFO'', Fputs '': '', Fputs ''Hello'', Fputs [CHR 0x0A]] ?w =
           (Some (- 1), \<lparr> s_logger = \<lparr> log_fn = Some (), threshold = MU_LOG_LEVEL_INFO \<rparr>,
               stdout_calls = [(Fputs ''INFO'', 0), (Fputs '': '', - 1)], app = () \<rparr>)"
    by (simp add: call_stdio_def Let_def word_sless_alt mu_log_set_fn_def initial_world_def
        s_logger_init_def level_defs)
  have 4: "write_until_failure ?io
             [Printf ''%5s: '' [''INFO''], Vprintf ''Hello, %s!'' [''world''],
              Printf [CHR 0x0A] []] ?w =
           (Some (- 1), \<lparr> s_logger = \<lparr> log_fn = Some (), threshold = MU_LOG_LEVEL_INFO \<rparr>,
               stdout_calls = [(Printf ''%5s: '' [''INFO''], 0),
                               (Vprintf ''Hello, %s!'' [''world''], - 1)], app = () \<rparr>)"
    by (simp add: call_stdio_def Let_def word_sless_alt mu_log_set_fn_def initial_world_def
        s_logger_init_def level_defs)
  from stdout_fn_short_circuit [OF 1 2, of ?io "''Hello''" "''Hello, %s!''" "[''world'']"] 3 4
  show ?thesis
    by blast
qed

text \<open>
  C7: where \<^verbatim>\<open>mu_log_will_log\<close> is false for the level (no sink installed, or the level
  below the threshold), the default sink returns 0 and leaves the state as it was: no
  call to the standard output is made. Both builds.
\<close>

theorem stdout_fn_below_threshold:
  assumes "\<not> mu_log_will_log sg w level"
  shows "mu_log_stdout_fn sg io level message w = Inr (0, w) \<and>
         mu_log_stdout_fn_formatted sg io level format ap w = Inr (0, w)"
  using assms by (simp add: simple_sink_gated formatted_sink_gated)

theorem stdout_fn_below_threshold_witness:
  "mu_log_stdout_fn True stdio_counting MU_LOG_LEVEL_DEBUG ''Hello''
     (mu_log_set_fn (Some ()) (initial_world ()) :: (unit, string list, unit) world) =
   Inr (0, \<lparr> s_logger = \<lparr> log_fn = Some (), threshold = MU_LOG_LEVEL_INFO \<rparr>,
             stdout_calls = [], app = () \<rparr>) \<and>
   mu_log_stdout_fn_formatted True stdio_counting MU_LOG_LEVEL_DEBUG ''Hello, %s!'' [''world'']
     (mu_log_set_fn (Some ()) (initial_world ())) =
   Inr (0, \<lparr> s_logger = \<lparr> log_fn = Some (), threshold = MU_LOG_LEVEL_INFO \<rparr>,
             stdout_calls = [], app = () \<rparr>)"
proof -
  let ?w = "mu_log_set_fn (Some ()) (initial_world ()) :: (unit, string list, unit) world"
  have "\<not> mu_log_will_log True ?w MU_LOG_LEVEL_DEBUG"
    by (simp add: mu_log_will_log_def mu_log_set_fn_def initial_world_def s_logger_init_def
        level_defs enum_int_def)
  from stdout_fn_below_threshold [OF this, of stdio_counting "''Hello''" "''Hello, %s!''"
      "[''world'']"]
  show ?thesis
    by (simp add: mu_log_set_fn_def initial_world_def s_logger_init_def level_defs)
qed



end
